theory Spec2Isabelle
  imports Main
begin

section \<open>Data model (types.ts)\<close>

datatype AgentStatus =
  IDLE | PLANNING | CODING | TESTING | REFINING | COMPLETED | FAILED | STOPPED

datatype LogType = info | success | warning | error | system

datatype FileStatus = pending | created | verified | buggy

datatype Role = user | agent

text \<open>
  Record fields are global names in HOL, so a field name that two interfaces share is
  prefixed in all but one of them: \<open>ProjectState.name\<close> is \<open>project_name\<close>,
  \<open>ProjectFile.status\<close> is \<open>file_status\<close>, \<open>TestResult.id\<close> is \<open>test_id\<close>, and so on.
  \<open>LogEntry.id\<close>, \<open>LogEntry.timestamp\<close> and \<open>Message.timestamp\<close> come from
  \<open>Math.random\<close> and the clock and are read nowhere in the orchestrator; they are left out.
  \<open>qualityScore\<close> is a JSON number that the code only compares with 95 and 80 and prints;
  it is an integer here, as the interface's comment (0-100) has it.
\<close>

record LogEntry =
  log_message :: string
  log_type :: LogType

record ProjectFile =
  name :: string
  language :: string
  content :: string
  file_status :: FileStatus

record TestResult =
  test_id :: string
  testName :: string
  passed :: bool
  message :: string

record ProjectState =
  project_name :: string
  description :: string
  files :: "ProjectFile list"
  testResults :: "TestResult list"
  qualityScore :: int
  iteration :: nat
  logs :: "LogEntry list"
  status :: AgentStatus
  generatedArtifacts :: "string list"
  report :: "string option"

record ChartDataPoint =
  chart_iteration :: nat
  quality :: int
  bugs :: nat

record Message =
  role :: Role
  msg_text :: string

section \<open>Strings\<close>

definition newline :: string where
  "newline = [CHR 0x0A]"

definition digit :: "nat \<Rightarrow> char" where
  "digit d = char_of (48 + d)"

text \<open>Decimal rendering of a number inside a template string.\<close>

function show_nat :: "nat \<Rightarrow> string" where
  "show_nat n = (if n < 10 then [digit n] else show_nat (n div 10) @ [digit (n mod 10)])"
  by pat_completeness auto
termination
  by (relation "measure (\<lambda>n. n)") auto

declare show_nat.simps [simp del]

definition show_int :: "int \<Rightarrow> string" where
  "show_int i = (if i < 0 then CHR ''-'' # show_nat (nat (- i)) else show_nat (nat i))"

text \<open>\<open>Array.prototype.join\<close>.\<close>

fun join :: "string \<Rightarrow> string list \<Rightarrow> string" where
  "join sep [] = []"
| "join sep [x] = x"
| "join sep (x # y # ys) = x @ sep @ join sep (y # ys)"

text \<open>\<open>Array.prototype.findIndex\<close>, with \<open>None\<close> for -1.\<close>

fun findIndex :: "('a \<Rightarrow> bool) \<Rightarrow> 'a list \<Rightarrow> nat option" where
  "findIndex p [] = None"
| "findIndex p (x # xs) =
     (if p x then Some 0 else (case findIndex p xs of None \<Rightarrow> None | Some i \<Rightarrow> Some (Suc i)))"

definition is_letter :: "char \<Rightarrow> bool" where
  "is_letter c =
     (let n = (of_char c :: nat) in (97 \<le> n \<and> n \<le> 122) \<or> (65 \<le> n \<and> n \<le> 90))"

definition fence :: string where
  "fence = [CHR 0x60, CHR 0x60, CHR 0x60]"

text \<open>
  \<open>text.replace(/^```[a-z]*\n/i, '')\<close>: an opening fence at the very start of the text, any
  letters and one line feed are removed. The letters are matched greedily, and what follows
  them has to be the line feed, which is no letter, so there is nothing to backtrack to.
\<close>

definition strip_open :: "string \<Rightarrow> string" where
  "strip_open t =
     (if take 3 t = fence then
        (case dropWhile is_letter (drop 3 t) of
           [] \<Rightarrow> t
         | c # rest \<Rightarrow> if c = CHR 0x0A then rest else t)
      else t)"

text \<open>\<open>text.replace(/\n```$/, '')\<close>: a line feed and a fence at the very end are removed.\<close>

definition strip_close :: "string \<Rightarrow> string" where
  "strip_close t =
     (if 4 \<le> length t \<and> drop (length t - 4) t = newline @ fence
      then take (length t - 4) t else t)"

definition strip_fences :: "string \<Rightarrow> string" where
  "strip_fences t = strip_close (strip_open t)"

definition is_space :: "char \<Rightarrow> bool" where
  "is_space c = (c \<in> {CHR 0x09, CHR 0x0A, CHR 0x0B, CHR 0x0C, CHR 0x0D, CHR 0x20, CHR 0xA0})"

text \<open>\<open>String.prototype.trim\<close> on the white space that fits a byte.\<close>

definition trim :: "string \<Rightarrow> string" where
  "trim t = rev (dropWhile is_space (rev (dropWhile is_space t)))"

section \<open>The generative collaborator (services/geminiService.ts)\<close>

text \<open>
  What the remote model answers is not determined by the code, so every request is answered
  by the environment. \<open>Rejects m\<close>: \<open>generateContent\<close> (or \<open>JSON.parse\<close> of its text)
  throws an error with message \<open>m\<close>; \<open>NoText\<close>: \<open>response.text\<close> is undefined;
  \<open>Body b\<close>: the text, or for a request with a response schema the parsed JSON.
  The prompts sent along do not influence the model of the answer and are not built.
\<close>

datatype 'a response = Rejects string | NoText | Body 'a

record plan_data =
  plan_files :: "ProjectFile list"
  planSummary :: string

record vibe =
  degraded :: bool
  reason :: string

record finding =
  f_testName :: string
  f_passed :: bool
  f_message :: string

record analysis_data =
  d_results :: "finding list"
  d_qualityScore :: int
  d_vibeCheck :: "vibe option"

record analysis =
  results :: "TestResult list"
  score :: int
  vibeCheck :: vibe

record change =
  c_name :: string
  c_content :: string
  c_language :: string

record refine_data =
  changedFiles :: "change list"
  explanation :: string

definition getAiClient :: "string option \<Rightarrow> string + unit" where
  "getAiClient apiKey =
     (case apiKey of
        None \<Rightarrow> Inl ''API_KEY environment variable is not set.''
      | Some k \<Rightarrow> if k = [] then Inl ''API_KEY environment variable is not set.'' else Inr ())"

definition generateProjectPlan :: "string option \<Rightarrow> plan_data response \<Rightarrow> string + plan_data" where
  "generateProjectPlan apiKey r =
     (case getAiClient apiKey of
        Inl e \<Rightarrow> Inl e
      | Inr _ \<Rightarrow>
          (case r of
             Rejects m \<Rightarrow> Inl m
           | NoText \<Rightarrow> Inl ''No response text from Gemini''
           | Body d \<Rightarrow> Inr d))"

definition generateFileContent :: "string option \<Rightarrow> string \<Rightarrow> string response \<Rightarrow> string + string" where
  "generateFileContent apiKey filename r =
     (case getAiClient apiKey of
        Inl e \<Rightarrow> Inl e
      | Inr _ \<Rightarrow>
          (case r of
             Rejects m \<Rightarrow> Inr (''// Error generating content for '' @ filename)
           | NoText \<Rightarrow> Inr (strip_fences [])
           | Body t \<Rightarrow> Inr (strip_fences t)))"

definition number_results :: "finding list \<Rightarrow> TestResult list" where
  "number_results rs =
     map (\<lambda>(idx, r). \<lparr>test_id = ''test-'' @ show_nat idx, testName = f_testName r,
                       passed = f_passed r, message = f_message r\<rparr>)
       (zip [0..<length rs] rs)"

definition analysis_fallback :: analysis where
  "analysis_fallback =
     \<lparr>results = [], score = 0, vibeCheck = \<lparr>degraded = False, reason = ''Error running checks''\<rparr>\<rparr>"

definition runAutonomousTests :: "string option \<Rightarrow> analysis_data response \<Rightarrow> string + analysis" where
  "runAutonomousTests apiKey r =
     (case getAiClient apiKey of
        Inl e \<Rightarrow> Inl e
      | Inr _ \<Rightarrow>
          (case r of
             Rejects m \<Rightarrow> Inr analysis_fallback
           | NoText \<Rightarrow> Inr analysis_fallback
           | Body d \<Rightarrow>
               Inr \<lparr>results = number_results (d_results d), score = d_qualityScore d,
                    vibeCheck = (case d_vibeCheck d of
                                   None \<Rightarrow> \<lparr>degraded = False, reason = ''Stable''\<rparr>
                                 | Some v \<Rightarrow> v)\<rparr>))"

definition refactorCode :: "string option \<Rightarrow> ProjectFile \<Rightarrow> string response \<Rightarrow> string + string" where
  "refactorCode apiKey file r =
     (case getAiClient apiKey of
        Inl e \<Rightarrow> Inl e
      | Inr _ \<Rightarrow>
          (case r of
             Rejects m \<Rightarrow> Inl m
           | NoText \<Rightarrow> Inr (strip_fences (content file))
           | Body t \<Rightarrow> Inr (strip_fences (if t = [] then content file else t))))"

definition generateFinalReport :: "string option \<Rightarrow> string response \<Rightarrow> string + string" where
  "generateFinalReport apiKey r =
     (case getAiClient apiKey of
        Inl e \<Rightarrow> Inl e
      | Inr _ \<Rightarrow>
          (case r of
             Rejects m \<Rightarrow> Inl m
           | NoText \<Rightarrow> Inr ''Report generation failed.''
           | Body t \<Rightarrow> Inr (if t = [] then ''Report generation failed.'' else t)))"

text \<open>The body of the \<open>forEach\<close> that merges one changed file into \<open>newFiles\<close>.\<close>

definition merge_change :: "ProjectFile list \<Rightarrow> change \<Rightarrow> ProjectFile list" where
  "merge_change newFiles c =
     (case findIndex (\<lambda>f. name f = c_name c) newFiles of
        Some idx \<Rightarrow> newFiles[idx := (newFiles ! idx)\<lparr>content := c_content c\<rparr>]
      | None \<Rightarrow>
          newFiles @ [\<lparr>name = c_name c, language = c_language c, content = c_content c,
                       file_status = created\<rparr>])"

definition refineProject ::
  "string option \<Rightarrow> ProjectFile list \<Rightarrow> refine_data response \<Rightarrow> string + (ProjectFile list \<times> string)" where
  "refineProject apiKey fs r =
     (case getAiClient apiKey of
        Inl e \<Rightarrow> Inl e
      | Inr _ \<Rightarrow>
          (case r of
             Rejects m \<Rightarrow> Inl m
           | NoText \<Rightarrow> Inl ''Refinement failed''
           | Body d \<Rightarrow> Inr (foldl merge_change fs (changedFiles d), explanation d)))"

section \<open>The orchestrator's state (App.tsx)\<close>

text \<open>
  \<open>call\<close> and \<open>event\<close> are instrumentation, not program state: the journal lists, in order,
  every collaborator function the orchestrator calls (with its arguments) and every phase
  it assigns to \<open>state.status\<close>.
\<close>

datatype call =
    Plan string
  | GenerateFile string string "ProjectFile list"
  | Analyze "ProjectFile list"
  | Refactor ProjectFile string
  | Report ProjectState
  | Refine string "ProjectFile list"

datatype event = Called call | Entered AgentStatus

record world =
  state :: ProjectState
  messages :: "Message list"
  chatInput :: string
  selectedFile :: "ProjectFile option"
  metricsData :: "ChartDataPoint list"
  abortController :: bool
  journal :: "event list"

text \<open>
  One exchange with the collaborator: its answer, and whether the user presses STOP while
  the request is in flight.
\<close>

record 'a exchange =
  stop_pressed :: bool
  response :: "'a response"

text \<open>
  The environment of one run: \<open>process.env.API_KEY\<close>, and the exchange for every request,
  found by the place of the request in the run (the index of the file being generated, the
  iteration of the optimisation loop, the position of the refactored file among the targets
  of its iteration). \<open>on_pause\<close>: STOP is pressed during the pacing delay after a file.
\<close>

record env =
  API_KEY :: "string option"
  on_plan :: "plan_data exchange"
  on_generate :: "nat \<Rightarrow> string exchange"
  on_pause :: "nat \<Rightarrow> bool"
  on_analyze :: "nat \<Rightarrow> analysis_data exchange"
  on_refactor :: "nat \<Rightarrow> nat \<Rightarrow> string exchange"
  on_report :: "string exchange"
  on_refine :: "refine_data exchange"
  on_manual_test :: "analysis_data exchange"

definition INITIAL_STATE :: ProjectState where
  "INITIAL_STATE =
     \<lparr>project_name = [], description = [], files = [], testResults = [], qualityScore = 0,
      iteration = 0, logs = [], status = IDLE, generatedArtifacts = [], report = None\<rparr>"

definition MAX_ITERATIONS :: nat where
  "MAX_ITERATIONS = 3"

definition STOP_MESSAGE :: string where
  "STOP_MESSAGE = ''Process stopped by user''"

text \<open>\<open>setState(prev => ...)\<close> with an updater that leaves \<open>status\<close> alone.\<close>

definition setState :: "(ProjectState \<Rightarrow> ProjectState) \<Rightarrow> world \<Rightarrow> world" where
  "setState f w = w\<lparr>state := f (state w)\<rparr>"

text \<open>The part \<open>status: s\<close> of an updater; the assignment is entered into the journal.\<close>

definition setStatus :: "AgentStatus \<Rightarrow> world \<Rightarrow> world" where
  "setStatus s w = w\<lparr>state := (state w)\<lparr>status := s\<rparr>, journal := journal w @ [Entered s]\<rparr>"

definition addLog :: "string \<Rightarrow> LogType \<Rightarrow> world \<Rightarrow> world" where
  "addLog m t w =
     setState (\<lambda>prev. prev\<lparr>logs := logs prev @ [\<lparr>log_message = m, log_type = t\<rparr>]\<rparr>) w"

definition addMessage :: "Role \<Rightarrow> string \<Rightarrow> world \<Rightarrow> world" where
  "addMessage r t w = w\<lparr>messages := messages w @ [\<lparr>role = r, msg_text = t\<rparr>]\<rparr>"

definition isBusy :: "AgentStatus \<Rightarrow> bool" where
  "isBusy s = (s = PLANNING \<or> s = CODING \<or> s = TESTING \<or> s = REFINING)"

definition handleStop :: "world \<Rightarrow> world" where
  "handleStop w =
     setStatus STOPPED
       (addLog ''Process termination requested by user.'' warning (w\<lparr>abortController := True\<rparr>))"

text \<open>\<open>checkAbort\<close> throws exactly when this holds.\<close>

definition checkAbort :: "world \<Rightarrow> bool" where
  "checkAbort w = abortController w"

text \<open>
  A suspension point at which the user may press STOP. The button is rendered only while
  \<open>isBusy\<close> holds of the phase shown.
\<close>

definition suspend :: "bool \<Rightarrow> world \<Rightarrow> world" where
  "suspend pressed w = (if pressed \<and> isBusy (status (state w)) then handleStop w else w)"

text \<open>
  Calling a function of the collaborator client: the call is entered into the journal;
  unless \<open>getAiClient\<close> throws at once, a request goes out and the caller is suspended
  until the answer is there.
\<close>

definition invoke :: "env \<Rightarrow> call \<Rightarrow> bool \<Rightarrow> world \<Rightarrow> world" where
  "invoke e c pressed w =
     (let w1 = w\<lparr>journal := journal w @ [Called c]\<rparr>
      in if isl (getAiClient (API_KEY e)) then w1 else suspend pressed w1)"

section \<open>Manual test run\<close>

text \<open>
  A handler reads \<open>state\<close> from the render it was created in (\<open>captured\<close>), while the
  updaters of \<open>setState\<close> work on the live state of the world.
\<close>

definition next_iter :: "ChartDataPoint list \<Rightarrow> nat" where
  "next_iter prev = (if length prev > 0 then chart_iteration (prev ! (length prev - 1)) + 1 else 1)"

definition bug_count :: "analysis \<Rightarrow> nat" where
  "bug_count a = length (filter (\<lambda>r. \<not> passed r) (results a))"

definition handleManualTest :: "ProjectState \<Rightarrow> env \<Rightarrow> world \<Rightarrow> world" where
  "handleManualTest captured e w =
     (if length (files captured) = 0 then w
      else
        let wasCompleted = (status captured = COMPLETED);
            w1 = setStatus TESTING w;
            w2 = addLog ''Manual Override: Initiating autonomous test suite...'' system w1;
            w3 = invoke e (Analyze (files captured)) (stop_pressed (on_manual_test e)) w2
        in case runAutonomousTests (API_KEY e) (response (on_manual_test e)) of
             Inl m \<Rightarrow> setStatus IDLE (addLog (''Test run failed: '' @ m) error w3)
           | Inr a \<Rightarrow>
               let bugCount = bug_count a;
                   w4 = w3\<lparr>metricsData := metricsData w3 @
                          [\<lparr>chart_iteration = next_iter (metricsData w3), quality = score a,
                            bugs = bugCount\<rparr>]\<rparr>;
                   w5 = setStatus (if wasCompleted then COMPLETED else IDLE)
                          (setState (\<lambda>prev. prev\<lparr>testResults := results a,
                                                  qualityScore := score a\<rparr>) w4)
               in if degraded (vibeCheck a)
                  then addLog (''Vibe Inspector: '' @ reason (vibeCheck a)) info
                         (addLog ''System vibe degraded.'' warning w5)
                  else addLog (''Quality Score: '' @ show_int (score a) @ ''/100. Bugs detected: ''
                                 @ show_nat bugCount)
                         (if score a > 80 then success else warning) w5)"

section \<open>The build: \<open>handleStartMarathon\<close>\<close>

text \<open>
  A part of the \<open>try\<close> block returns \<open>Inl m\<close> when an error with message \<open>m\<close> is thrown
  in it, together with the world as it is at that moment.
\<close>

definition planning :: "env \<Rightarrow> string \<Rightarrow> world \<Rightarrow> (string + ProjectFile list) \<times> world" where
  "planning e promptText w =
     (if checkAbort w then (Inl STOP_MESSAGE, w)
      else
        let w1 = addLog ''Phase 1: Architecture & Planning'' system w;
            w2 = invoke e (Plan promptText) (stop_pressed (on_plan e)) w1
        in case generateProjectPlan (API_KEY e) (response (on_plan e)) of
             Inl m \<Rightarrow> (Inl m, w2)
           | Inr plan \<Rightarrow>
               if checkAbort w2 then (Inl STOP_MESSAGE, w2)
               else
                 let w3 = setStatus CODING (setState (\<lambda>prev. prev\<lparr>files := plan_files plan\<rparr>) w2);
                     w4 = addLog (''Plan generated. '' @ show_nat (length (plan_files plan))
                                    @ '' artifacts defined.'') success w3
                 in (Inr (plan_files plan), w4))"

text \<open>The \<open>for\<close> loop of phase 2, from index \<open>i\<close> on.\<close>

function coding ::
  "env \<Rightarrow> string \<Rightarrow> nat \<Rightarrow> ProjectFile list \<Rightarrow> world \<Rightarrow> (string + ProjectFile list) \<times> world" where
  "coding e promptText i currentFiles w =
     (if i < length currentFiles then
        (if checkAbort w then (Inl STOP_MESSAGE, w)
         else
           let file = currentFiles ! i;
               w1 = addLog (''Generating artifact: '' @ name file @ ''...'') info w;
               w2 = invoke e (GenerateFile (name file) promptText currentFiles)
                      (stop_pressed (on_generate e i)) w1
           in case generateFileContent (API_KEY e) (name file) (response (on_generate e i)) of
                Inl m \<Rightarrow> (Inl m, w2)
              | Inr text \<Rightarrow>
                  coding e promptText (i + 1)
                    (currentFiles[i := file\<lparr>content := text, file_status := created\<rparr>])
                    (suspend (on_pause e i)
                      ((if i = 0
                        then (\<lambda>v. v\<lparr>selectedFile :=
                               Some (file\<lparr>content := text, file_status := created\<rparr>)\<rparr>)
                        else (\<lambda>v. v))
                         (setState (\<lambda>prev. prev\<lparr>files :=
                            currentFiles[i := file\<lparr>content := text, file_status := created\<rparr>]\<rparr>) w2))))
      else (Inr currentFiles, w))"
  by pat_completeness auto
termination
  by (relation "measure (\<lambda>(e, p, i, fs, w). length fs - i)") auto

declare coding.simps [simp del]

text \<open>
  The inner \<open>for ... of filesToFix\<close> loop of one refine pass; \<open>k\<close> is the position of the
  next target among the targets of this iteration.
\<close>

fun refactorFiles ::
  "env \<Rightarrow> nat \<Rightarrow> string \<Rightarrow> nat \<Rightarrow> ProjectFile list \<Rightarrow> ProjectFile list \<Rightarrow> world
     \<Rightarrow> (string + ProjectFile list) \<times> world" where
  "refactorFiles e iter errorContext k [] currentFiles w = (Inr currentFiles, w)"
| "refactorFiles e iter errorContext k (file # filesToFix) currentFiles w =
     (if checkAbort w then (Inl STOP_MESSAGE, w)
      else
        let w1 = addLog (''Refactoring '' @ name file @ ''...'') info w;
            w2 = invoke e (Refactor file errorContext) (stop_pressed (on_refactor e iter k)) w1
        in case refactorCode (API_KEY e) file (response (on_refactor e iter k)) of
             Inl m \<Rightarrow> (Inl m, w2)
           | Inr newContent \<Rightarrow>
               (case findIndex (\<lambda>f. name f = name file) currentFiles of
                  None \<Rightarrow> refactorFiles e iter errorContext (k + 1) filesToFix currentFiles w2
                | Some index \<Rightarrow>
                    refactorFiles e iter errorContext (k + 1) filesToFix
                      (currentFiles[index := file\<lparr>content := newContent, file_status := verified\<rparr>])
                      (setState (\<lambda>prev. prev\<lparr>files :=
                         currentFiles[index := file\<lparr>content := newContent,
                                                     file_status := verified\<rparr>]\<rparr>) w2)))"

definition needsRefinement :: "analysis \<Rightarrow> bool" where
  "needsRefinement a = (bug_count a > 0 \<or> degraded (vibeCheck a))"

definition errorContext_of :: "analysis \<Rightarrow> string" where
  "errorContext_of a =
     join newline (map message (filter (\<lambda>r. \<not> passed r) (results a))) @
     (if degraded (vibeCheck a)
      then newline @ ''QUALITY ISSUE: '' @ reason (vibeCheck a) @ newline @
           ''Action: Refactor to clean up code, remove hacks, deduplicate logic.''
      else [])"

definition filesToFix_of :: "ProjectFile list \<Rightarrow> ProjectFile list" where
  "filesToFix_of currentFiles =
     take 3 (filter (\<lambda>f. language f \<noteq> ''json'' \<and> length (content f) > 0) currentFiles)"

text \<open>How one run of the body of the \<open>while\<close> loop ends: with \<open>break\<close>, or at its last line.\<close>

datatype control = Break | Next

definition converge_pass ::
  "env \<Rightarrow> nat \<Rightarrow> ProjectFile list \<Rightarrow> world
     \<Rightarrow> (string + (control \<times> int \<times> ProjectFile list)) \<times> world" where
  "converge_pass e iter currentFiles w =
     (if checkAbort w then (Inl STOP_MESSAGE, w)
      else
        let w1 = setStatus TESTING (setState (\<lambda>prev. prev\<lparr>iteration := iter\<rparr>) w);
            w2 = addLog (''Iteration '' @ show_nat iter @ '': Running tests...'') system w1;
            w3 = invoke e (Analyze currentFiles) (stop_pressed (on_analyze e iter)) w2
        in case runAutonomousTests (API_KEY e) (response (on_analyze e iter)) of
             Inl m \<Rightarrow> (Inl m, w3)
           | Inr a \<Rightarrow>
               if checkAbort w3 then (Inl STOP_MESSAGE, w3)
               else
                 let w4 = w3\<lparr>metricsData := metricsData w3 @
                            [\<lparr>chart_iteration = iter, quality = score a, bugs = bug_count a\<rparr>]\<rparr>;
                     w5 = setState (\<lambda>prev. prev\<lparr>testResults := results a,
                                                 qualityScore := score a\<rparr>) w4;
                     w6 = (if degraded (vibeCheck a)
                           then addLog ''Vibe degraded. Refactoring.'' warning w5 else w5)
                 in if needsRefinement a \<and> iter < MAX_ITERATIONS then
                      (if checkAbort w6 then (Inl STOP_MESSAGE, w6)
                       else
                         (case refactorFiles e iter (errorContext_of a) 0
                                 (filesToFix_of currentFiles) currentFiles (setStatus REFINING w6) of
                            (Inl m, w7) \<Rightarrow> (Inl m, w7)
                          | (Inr fs, w7) \<Rightarrow> (Inr (Next, score a, fs), w7)))
                    else if score a \<ge> 95 \<and> \<not> degraded (vibeCheck a) then
                      (Inr (Break, score a, currentFiles), addLog ''System stable.'' success w6)
                    else if iter \<ge> MAX_ITERATIONS then
                      (Inr (Break, score a, currentFiles),
                       addLog ''Max iterations reached.'' warning w6)
                    else (Inr (Next, score a, currentFiles), w6))"

text \<open>
  The \<open>while\<close> loop of phase 3, entered with the values of \<open>iteration\<close>, \<open>qualityScore\<close> and
  \<open>currentFiles\<close>; it returns their values when the loop is left.
\<close>

function converge ::
  "env \<Rightarrow> nat \<Rightarrow> int \<Rightarrow> ProjectFile list \<Rightarrow> world
     \<Rightarrow> (string + (nat \<times> int \<times> ProjectFile list)) \<times> world" where
  "converge e iter q currentFiles w =
     (if iter \<le> MAX_ITERATIONS \<and> q < 95 then
        (case converge_pass e iter currentFiles w of
           (Inl m, w') \<Rightarrow> (Inl m, w')
         | (Inr (Break, q', fs), w') \<Rightarrow> (Inr (iter, q', fs), w')
         | (Inr (Next, q', fs), w') \<Rightarrow> converge e (iter + 1) q' fs w')
      else (Inr (iter, q, currentFiles), w))"
  by pat_completeness auto
termination
  by (relation "measure (\<lambda>(e, iter, q, fs, w). MAX_ITERATIONS + 1 - iter)") auto

declare converge.simps [simp del]

text \<open>Phase 4. The report is written from the captured \<open>state\<close> and the loop's variables.\<close>

definition reporting ::
  "ProjectState \<Rightarrow> env \<Rightarrow> nat \<Rightarrow> int \<Rightarrow> ProjectFile list \<Rightarrow> world \<Rightarrow> (string + unit) \<times> world" where
  "reporting captured e iter q currentFiles w =
     (if checkAbort w then (Inl STOP_MESSAGE, w)
      else
        let w1 = setStatus COMPLETED w;
            w2 = invoke e (Report (captured\<lparr>iteration := iter, qualityScore := q,
                                             files := currentFiles\<rparr>))
                   (stop_pressed (on_report e)) w1
        in case generateFinalReport (API_KEY e) (response (on_report e)) of
             Inl m \<Rightarrow> (Inl m, w2)
           | Inr r \<Rightarrow>
               (Inr (),
                addMessage agent
                  ''Mission complete. I've built the application. Check the Preview tab.''
                  (addLog ''Mission Complete.'' success
                    (setState (\<lambda>prev. prev\<lparr>report := Some r\<rparr>) w2))))"

text \<open>The \<open>try\<close> block of \<open>handleStartMarathon\<close>.\<close>

definition build :: "ProjectState \<Rightarrow> env \<Rightarrow> string \<Rightarrow> world \<Rightarrow> (string + unit) \<times> world" where
  "build captured e promptText w =
     (case planning e promptText w of
        (Inl m, w1) \<Rightarrow> (Inl m, w1)
      | (Inr planned, w1) \<Rightarrow>
          (case coding e promptText 0 planned
                  (addLog ''Phase 2: Autonomous Construction'' system w1) of
             (Inl m, w2) \<Rightarrow> (Inl m, w2)
           | (Inr coded, w2) \<Rightarrow>
               (case converge e 1 0 coded (addLog ''Phase 3: Optimization Loop'' system w2) of
                  (Inl m, w3) \<Rightarrow> (Inl m, w3)
                | (Inr (iter, q, currentFiles), w3) \<Rightarrow>
                    reporting captured e iter q currentFiles w3)))"

text \<open>The statements of \<open>handleStartMarathon\<close> before its \<open>try\<close> block.\<close>

definition start_build :: "string \<Rightarrow> world \<Rightarrow> world" where
  "start_build promptText w =
     addLog (''Goal: '' @ promptText) info
       (addLog ''DAION Agent Initialized.'' system
         (addMessage agent ''Target acquired. Initializing DAION build sequence...''
           ((w\<lparr>state := INITIAL_STATE\<lparr>project_name := ''New Project'',
                                        description := promptText, status := PLANNING\<rparr>,
               journal := journal w @ [Entered PLANNING]\<rparr>)
             \<lparr>metricsData := []\<rparr>)))"

text \<open>The \<open>catch\<close> block of \<open>handleStartMarathon\<close>.\<close>

definition build_failed :: "string \<Rightarrow> world \<Rightarrow> world" where
  "build_failed m w =
     (if m = STOP_MESSAGE
      then addMessage agent ''Process stopped.'' (addLog ''Process halted.'' warning w)
      else addMessage agent ''I encountered a critical error.''
             (setStatus FAILED (addLog (''FAILURE: '' @ m) error w)))"

definition handleStartMarathon :: "ProjectState \<Rightarrow> env \<Rightarrow> string \<Rightarrow> world \<Rightarrow> world" where
  "handleStartMarathon captured e promptText w =
     (case build captured e promptText (start_build promptText w) of
        (Inl m, w') \<Rightarrow> build_failed m w'
      | (Inr _, w') \<Rightarrow> w')"

section \<open>Refinement and dispatch\<close>

definition handleRefinement :: "ProjectState \<Rightarrow> env \<Rightarrow> string \<Rightarrow> world \<Rightarrow> world" where
  "handleRefinement captured e request w =
     (let w1 = setStatus REFINING w;
          w2 = addLog (''User Request: '' @ request) system w1;
          w3 = addLog ''Analyzing request and updating codebase...'' info w2;
          w4 = invoke e (Refine request (files captured)) (stop_pressed (on_refine e)) w3
      in case (case refineProject (API_KEY e) (files captured) (response (on_refine e)) of
                 Inl m \<Rightarrow> Inl m
               | Inr r \<Rightarrow> if checkAbort w4 then Inl STOP_MESSAGE else Inr r) of
           Inr (fs, expl) \<Rightarrow>
             handleManualTest captured e
               (addMessage agent (''I've updated the code: '' @ expl @ ''. Running tests now...'')
                 (addLog (''Refinement applied: '' @ expl) success
                   (setStatus TESTING (setState (\<lambda>prev. prev\<lparr>files := fs\<rparr>) w4))))
         | Inl m \<Rightarrow>
             setStatus IDLE
               (if m \<noteq> STOP_MESSAGE
                then addMessage agent ''I couldn't apply those changes. Check the logs.''
                       (addLog (''Refinement failed: '' @ m) error w4)
                else w4))"

text \<open>
  \<open>handleSendMessage\<close>; the handler captures the state of the render in which the message is
  sent, which is the live state at that moment.
\<close>

definition handleSendMessage :: "env \<Rightarrow> world \<Rightarrow> world" where
  "handleSendMessage e w =
     (if trim (chatInput w) = [] \<or> isl (getAiClient (API_KEY e)) then w
      else
        let captured = state w;
            userMsg = \<lparr>role = user, msg_text = chatInput w\<rparr>;
            w1 = (w\<lparr>messages := messages w @ [userMsg]\<rparr>)\<lparr>chatInput := [], abortController := False\<rparr>
        in if status captured = IDLE \<or> status captured = STOPPED \<or> length (files captured) = 0
           then handleStartMarathon captured e (msg_text userMsg) w1
           else if status captured = COMPLETED \<or> status captured = FAILED \<or>
                   status captured = TESTING \<or> status captured = CODING
           then handleRefinement captured e (msg_text userMsg) w1
           else w1)"

section \<open>Observations on runs\<close>

text \<open>
  What every step inside the \<open>try\<close> block of a build before phase 4 does to the world:
  the conversation, the name, the description and the report of the project stay as they
  are; the cancellation flag stays set once it is set; if the phase is \<open>STOPPED\<close> whenever
  the flag is set, this stays so; the journal and the log grow at their ends only; no
  phase \<open>FAILED\<close>, \<open>COMPLETED\<close> or \<open>IDLE\<close> is assigned and no \<open>error\<close> entry is logged.
\<close>

definition advances :: "world \<Rightarrow> world \<Rightarrow> bool" where
  "advances w w' \<longleftrightarrow>
     messages w' = messages w \<and>
     project_name (state w') = project_name (state w) \<and>
     description (state w') = description (state w) \<and>
     report (state w') = report (state w) \<and>
     (abortController w \<longrightarrow> abortController w') \<and>
     ((abortController w \<longrightarrow> status (state w) = STOPPED) \<longrightarrow>
        (abortController w' \<longrightarrow> status (state w') = STOPPED)) \<and>
     (\<exists>js. journal w' = journal w @ js \<and> Entered FAILED \<notin> set js \<and>
        Entered COMPLETED \<notin> set js \<and> Entered IDLE \<notin> set js) \<and>
     (\<exists>ls. logs (state w') = logs (state w) @ ls \<and> (\<forall>l\<in>set ls. log_type l \<noteq> error))"

text \<open>The number of analysis passes a journal records.\<close>

fun is_analysis :: "event \<Rightarrow> bool" where
  "is_analysis (Called (Analyze fs)) = True"
| "is_analysis ev = False"

definition analyses :: "event list \<Rightarrow> nat" where
  "analyses js = length (filter is_analysis js)"

text \<open>The log says that the iteration budget was used up.\<close>

definition exhausted :: "world \<Rightarrow> bool" where
  "exhausted w \<longleftrightarrow>
     \<lparr>log_message = ''Max iterations reached.'', log_type = warning\<rparr> \<in> set (logs (state w))"


text \<open>
  Two stretches of the body of the optimisation loop, named for the proofs: from the
  assignment of \<open>TESTING\<close> to the return of the analysis call, and the bookkeeping that
  follows the checkpoint after it.
\<close>

definition begin_pass :: "env \<Rightarrow> nat \<Rightarrow> ProjectFile list \<Rightarrow> world \<Rightarrow> world" where
  "begin_pass e iter currentFiles w =
     invoke e (Analyze currentFiles) (stop_pressed (on_analyze e iter))
       (addLog (''Iteration '' @ show_nat iter @ '': Running tests...'') system
         (setStatus TESTING (setState (\<lambda>prev. prev\<lparr>iteration := iter\<rparr>) w)))"

definition record_analysis :: "nat \<Rightarrow> analysis \<Rightarrow> world \<Rightarrow> world" where
  "record_analysis iter a w3 =
     (let w4 = w3\<lparr>metricsData := metricsData w3 @
                  [\<lparr>chart_iteration = iter, quality = score a, bugs = bug_count a\<rparr>]\<rparr>;
          w5 = setState (\<lambda>prev. prev\<lparr>testResults := results a, qualityScore := score a\<rparr>) w4
      in if degraded (vibeCheck a)
         then addLog ''Vibe degraded. Refactoring.'' warning w5 else w5)"

section \<open>Concrete runs\<close>

text \<open>Files, answers and environments on which the theorems below are instantiated.\<close>

definition quiet :: "'a response \<Rightarrow> 'a exchange" where
  "quiet r = \<lparr>stop_pressed = False, response = r\<rparr>"

definition interrupted :: "'a response \<Rightarrow> 'a exchange" where
  "interrupted r = \<lparr>stop_pressed = True, response = r\<rparr>"

definition file_app :: ProjectFile where
  "file_app = \<lparr>name = ''App.tsx'', language = ''typescript'', content = ''old'',
                file_status = verified\<rparr>"

definition file_data :: ProjectFile where
  "file_data = \<lparr>name = ''data.json'', language = ''json'', content = ''{}'',
                 file_status = created\<rparr>"

text \<open>The skeletons of a plan: no content yet, status \<open>pending\<close>.\<close>

definition plan_app :: ProjectFile where
  "plan_app = \<lparr>name = ''App.tsx'', language = ''typescript'', content = [],
                file_status = pending\<rparr>"

definition plan_json :: ProjectFile where
  "plan_json = \<lparr>name = ''data.json'', language = ''json'', content = [],
                 file_status = pending\<rparr>"

definition change_app :: change where
  "change_app = \<lparr>c_name = ''App.tsx'', c_content = ''new'', c_language = ''javascript''\<rparr>"

definition change_css :: change where
  "change_css = \<lparr>c_name = ''index.css'', c_content = ''body {}'', c_language = ''css''\<rparr>"

definition failing_finding :: finding where
  "failing_finding = \<lparr>f_testName = ''renders'', f_passed = False, f_message = ''crash''\<rparr>"

definition passing_finding :: finding where
  "passing_finding = \<lparr>f_testName = ''adds'', f_passed = True, f_message = ''ok''\<rparr>"

definition answer :: "finding list \<Rightarrow> int \<Rightarrow> bool \<Rightarrow> analysis_data response" where
  "answer rs q d =
     Body \<lparr>d_results = rs, d_qualityScore = q,
           d_vibeCheck = Some \<lparr>degraded = d, reason = ''Code duplication detected''\<rparr>\<rparr>"

text \<open>
  A run in which nothing goes wrong: the plan has the two skeletons above, every file is
  generated as \<open>code\<close>, every analysis finds one bug at score 60, every refactoring
  returns \<open>fixed\<close>, and STOP is never pressed.
\<close>

definition calm :: env where
  "calm =
     \<lparr>API_KEY = Some ''key'',
      on_plan = quiet (Body \<lparr>plan_files = [plan_app, plan_json], planSummary = ''two files''\<rparr>),
      on_generate = (\<lambda>i. quiet (Body ''code'')),
      on_pause = (\<lambda>i. False),
      on_analyze = (\<lambda>i. quiet (answer [failing_finding] 60 False)),
      on_refactor = (\<lambda>i k. quiet (Body ''fixed'')),
      on_report = quiet (Body ''report''),
      on_refine = quiet (Body \<lparr>changedFiles = [change_app, change_css], explanation = ''done''\<rparr>),
      on_manual_test = quiet (answer [failing_finding, passing_finding] 70 False)\<rparr>"

definition fresh :: world where
  "fresh = \<lparr>state = INITIAL_STATE, messages = [], chatInput = ''todo app'', selectedFile = None,
            metricsData = [], abortController = False, journal = []\<rparr>"

text \<open>The world after a completed build, as far as the handlers read it.\<close>

definition built :: world where
  "built =
     fresh\<lparr>state := INITIAL_STATE\<lparr>project_name := ''New Project'', files := [file_app, file_data],
                                   iteration := 3, status := COMPLETED, report := Some ''report''\<rparr>,
           metricsData := [\<lparr>chart_iteration = 3, quality = 60, bugs = 1\<rparr>]\<rparr>"




definition refine_rejected :: env where
  "refine_rejected = calm\<lparr>on_refine := quiet (Rejects ''quota exceeded'')\<rparr>"

definition refactor_rejected :: env where
  "refactor_rejected = calm\<lparr>on_refactor := (\<lambda>i k. quiet (Rejects ''quota exceeded''))\<rparr>"

definition asking :: world where
  "asking = built\<lparr>chatInput := ''make it blue''\<rparr>"

definition polished_with_bug :: env where
  "polished_with_bug = calm\<lparr>on_analyze := (\<lambda>i. quiet (answer [failing_finding] 97 False))\<rparr>"

text \<open>One failing finding at score 60 in the first pass, a clean 97 afterwards.\<close>

definition todo_scenario :: env where
  "todo_scenario =
     calm\<lparr>on_analyze := (\<lambda>i. if i = 1 then quiet (answer [failing_finding] 60 False)
                               else quiet (answer [] 97 False))\<rparr>"



section \<open>Verification\<close>

subsection \<open>Lists\<close>



lemma show_nat_digits:
  "show_nat 0 = ''0''" "show_nat 1 = ''1''" "show_nat 2 = ''2''" "show_nat 3 = ''3''"
  "show_nat (Suc 0) = ''1''"
  by code_simp+

subsection \<open>Merging a refinement response\<close>



subsection \<open>Starting a build\<close>

text \<open>
  C9. Starting a new build sets \<open>iteration\<close> and \<open>qualityScore\<close> to 0 and empties the metrics
  series; the project is replaced as a whole by the initial state with the new name,
  description and phase (and the first two log entries), and nothing of the former project
  or of the former metrics has any influence on the build that follows.
\<close>

theorem start_build_resets:
  "iteration (state (start_build p w)) = 0 \<and>
   qualityScore (state (start_build p w)) = 0 \<and>
   metricsData (start_build p w) = [] \<and>
   state (start_build p w) =
     INITIAL_STATE\<lparr>project_name := ''New Project'', description := p, status := PLANNING,
       logs := [\<lparr>log_message = ''DAION Agent Initialized.'', log_type = system\<rparr>,
                \<lparr>log_message = ''Goal: '' @ p, log_type = info\<rparr>]\<rparr> \<and>
   handleStartMarathon captured e p (w\<lparr>state := s, metricsData := m\<rparr>) =
     handleStartMarathon captured e p w"
  by (simp add: handleStartMarathon_def start_build_def addLog_def addMessage_def setState_def
      INITIAL_STATE_def)

subsection \<open>Manual test run\<close>

text \<open>
  C10. A manual test run on a non-empty artifact list whose analysis call returns leaves
  \<open>files\<close>, \<open>name\<close>, \<open>description\<close>, \<open>iteration\<close> and \<open>report\<close> as they are, replaces
  \<open>testResults\<close> and \<open>qualityScore\<close> by those of the analysis, appends exactly one metrics
  snapshot, whose iteration is one more than that of the last snapshot (1 when there is
  none), and leaves the phase at \<open>COMPLETED\<close> if it was \<open>COMPLETED\<close> in the state the run was
  triggered from, and at \<open>IDLE\<close> otherwise.
\<close>

theorem manual_test_frame:
  assumes "files captured \<noteq> []"
    and "runAutonomousTests (API_KEY e) (response (on_manual_test e)) = Inr a"
  shows "files (state (handleManualTest captured e w)) = files (state w) \<and>
    project_name (state (handleManualTest captured e w)) = project_name (state w) \<and>
    description (state (handleManualTest captured e w)) = description (state w) \<and>
    iteration (state (handleManualTest captured e w)) = iteration (state w) \<and>
    report (state (handleManualTest captured e w)) = report (state w) \<and>
    testResults (state (handleManualTest captured e w)) = results a \<and>
    qualityScore (state (handleManualTest captured e w)) = score a \<and>
    metricsData (handleManualTest captured e w) =
      metricsData w @
        [\<lparr>chart_iteration = (if metricsData w = [] then 1
                              else chart_iteration (last (metricsData w)) + 1),
          quality = score a, bugs = length (filter (\<lambda>r. \<not> passed r) (results a))\<rparr>] \<and>
    status (state (handleManualTest captured e w)) =
      (if status captured = COMPLETED then COMPLETED else IDLE)"
  using assms
  by (simp add: handleManualTest_def Let_def invoke_def suspend_def handleStop_def
      setStatus_def addLog_def setState_def next_iter_def bug_count_def last_conv_nth)

theorem manual_test_frame_witness:
  "files (state built) \<noteq> [] \<and>
   testResults (state (handleManualTest (state built) calm built)) =
     [\<lparr>test_id = ''test-0'', testName = ''renders'', passed = False, message = ''crash''\<rparr>,
      \<lparr>test_id = ''test-1'', testName = ''adds'', passed = True, message = ''ok''\<rparr>] \<and>
   qualityScore (state (handleManualTest (state built) calm built)) = 70 \<and>
   files (state (handleManualTest (state built) calm built)) = [file_app, file_data] \<and>
   metricsData (handleManualTest (state built) calm built) =
     [\<lparr>chart_iteration = 3, quality = 60, bugs = 1\<rparr>,
      \<lparr>chart_iteration = 4, quality = 70, bugs = 1\<rparr>] \<and>
   status (state (handleManualTest (state built) calm built)) = COMPLETED"
proof -
  have a: "runAutonomousTests (API_KEY calm) (response (on_manual_test calm)) =
      Inr \<lparr>results =
             [\<lparr>test_id = ''test-0'', testName = ''renders'', passed = False, message = ''crash''\<rparr>,
              \<lparr>test_id = ''test-1'', testName = ''adds'', passed = True, message = ''ok''\<rparr>],
           score = 70,
           vibeCheck = \<lparr>degraded = False, reason = ''Code duplication detected''\<rparr>\<rparr>"
    by (simp add: runAutonomousTests_def getAiClient_def calm_def quiet_def answer_def
        number_results_def failing_finding_def passing_finding_def show_nat_digits upt_rec)
  have f: "files (state built) \<noteq> []"
    by (simp add: built_def fresh_def)
  show ?thesis
    using manual_test_frame [OF f a, of built]
    by (simp add: built_def fresh_def INITIAL_STATE_def)
qed

subsection \<open>Steps of a build\<close>

lemma advances_refl: "advances w w"
  by (simp add: advances_def)

lemma advances_trans: "advances w1 w2 \<Longrightarrow> advances w2 w3 \<Longrightarrow> advances w1 w3"
  unfolding advances_def
  apply (elim conjE exE)
  apply (intro conjI)
         apply simp
        apply simp
       apply simp
      apply simp
     apply simp
    apply blast
  subgoal for js ls js' ls'
    by (rule exI [of _ "js @ js'"]) auto
  subgoal for js ls js' ls'
    by (rule exI [of _ "ls @ ls'"]) auto
  done

lemmas prims = Let_def invoke_def suspend_def handleStop_def setStatus_def addLog_def
  setState_def checkAbort_def addMessage_def

lemma adv_addLog: "advances w v \<Longrightarrow> t \<noteq> error \<Longrightarrow> advances w (addLog m t v)"
  by (erule advances_trans) (simp add: advances_def prims)

lemma adv_invoke: "advances w v \<Longrightarrow> advances w (invoke e c b v)"
  by (erule advances_trans) (simp add: advances_def prims)

lemma adv_suspend: "advances w v \<Longrightarrow> advances w (suspend b v)"
  by (erule advances_trans) (simp add: advances_def prims)

lemma adv_files: "advances w v \<Longrightarrow> advances w (setState (files_update g) v)"
  by (erule advances_trans) (simp add: advances_def prims)

lemma adv_iteration: "advances w v \<Longrightarrow> advances w (setState (iteration_update g) v)"
  by (erule advances_trans) (simp add: advances_def prims)

lemma adv_results:
  "advances w v \<Longrightarrow>
   advances w (setState (\<lambda>prev. prev\<lparr>testResults := a, qualityScore := b\<rparr>) v)"
  by (erule advances_trans) (simp add: advances_def prims)

lemma adv_selected: "advances w v \<Longrightarrow> advances w (v\<lparr>selectedFile := x\<rparr>)"
  by (erule advances_trans) (simp add: advances_def)

lemma adv_metrics: "advances w v \<Longrightarrow> advances w (v\<lparr>metricsData := x\<rparr>)"
  by (erule advances_trans) (simp add: advances_def)

lemma adv_setStatus:
  "advances w v \<Longrightarrow> \<not> abortController v \<Longrightarrow> s \<noteq> FAILED \<Longrightarrow> s \<noteq> COMPLETED \<Longrightarrow> s \<noteq> IDLE \<Longrightarrow>
   advances w (setStatus s v)"
  by (erule advances_trans) (simp add: advances_def prims)

lemmas adv = advances_refl adv_addLog adv_invoke adv_suspend adv_files adv_iteration adv_results
  adv_selected adv_metrics

lemma abort_simps [simp]:
  "abortController (addLog m t w) = abortController w"
  "abortController (setState f w) = abortController w"
  "abortController (setStatus s w) = abortController w"
  "abortController (addMessage r x w) = abortController w"
  by (simp_all add: prims)

lemma planning_advances: "advances w v \<Longrightarrow> advances w (snd (planning e p v))"
  by (auto simp: planning_def Let_def checkAbort_def split: sum.splits
      intro!: adv adv_setStatus)

lemma coding_advances: "advances w v \<Longrightarrow> advances w (snd (coding e p i fs v))"
proof (induction e p i fs v rule: coding.induct)
  case (1 e p i fs v)
  show ?case
  proof (cases "i < length fs \<and> \<not> checkAbort v")
    case False
    with "1.prems" show ?thesis
      by (subst coding.simps) auto
  next
    case True
    then have lt: "i < length fs" and na: "\<not> checkAbort v"
      by simp_all
    show ?thesis
    proof (cases "generateFileContent (API_KEY e) (name (fs ! i)) (response (on_generate e i))")
      case (Inl m)
      with True "1.prems" show ?thesis
        by (subst coding.simps) (auto simp: Let_def intro!: adv)
    next
      case (Inr t)
      note ih = "1.IH" [OF lt na refl refl refl Inr]
      have "advances w (snd (coding e p (i + 1)
              (fs[i := (fs ! i)\<lparr>content := t, file_status := created\<rparr>])
              (suspend (on_pause e i)
                ((if i = 0
                  then (\<lambda>v. v\<lparr>selectedFile :=
                         Some ((fs ! i)\<lparr>content := t, file_status := created\<rparr>)\<rparr>)
                  else (\<lambda>v. v))
                   (setState (\<lambda>prev. prev\<lparr>files :=
                      fs[i := (fs ! i)\<lparr>content := t, file_status := created\<rparr>]\<rparr>)
                     (invoke e (GenerateFile (name (fs ! i)) p fs)
                       (stop_pressed (on_generate e i))
                       (addLog (''Generating artifact: '' @ name (fs ! i) @ ''...'') info v)))))))"
        using "1.prems" by (intro ih) (auto intro!: adv)
      then show ?thesis
        using True Inr by (subst coding.simps) (simp add: Let_def)
    qed
  qed
qed

lemma refactorFiles_advances:
  "advances w v \<Longrightarrow> advances w (snd (refactorFiles e it ctx k ts cur v))"
proof (induction ts arbitrary: k cur v)
  case Nil
  then show ?case by simp
next
  case (Cons f ts)
  show ?case
    using Cons.prems
    by (auto simp: Let_def split: sum.splits option.splits intro!: adv Cons.IH)
qed

lemma refactorFiles_adv:
  "refactorFiles e it ctx k ts cur v = (r, v') \<Longrightarrow> advances w v \<Longrightarrow> advances w v'"
  using refactorFiles_advances [of w v e it ctx k ts cur] by simp

lemma converge_pass_advances: "advances w v \<Longrightarrow> advances w (snd (converge_pass e it fs v))"
  unfolding converge_pass_def Let_def
  by (auto split: sum.splits prod.splits simp: checkAbort_def
      intro!: adv adv_setStatus elim!: refactorFiles_adv)

lemma converge_advances: "advances w v \<Longrightarrow> advances w (snd (converge e it q fs v))"
proof (induction e it q fs v rule: converge.induct)
  case (1 e iter q fs v)
  show ?case
  proof (cases "iter \<le> MAX_ITERATIONS \<and> q < 95")
    case False
    with "1.prems" show ?thesis
      by (subst converge.simps) auto
  next
    case True
    have pass: "advances w (snd (converge_pass e iter fs v))"
      using "1.prems" by (rule converge_pass_advances)
    obtain r v1 where r: "converge_pass e iter fs v = (r, v1)"
      by (cases "converge_pass e iter fs v")
    with pass have v1: "advances w v1"
      by simp
    show ?thesis
    proof (cases r)
      case (Inl m)
      with True r v1 show ?thesis
        by (subst converge.simps) simp
    next
      case (Inr x)
      obtain ctl q' fs' where x: "x = (ctl, q', fs')"
        by (cases x)
      show ?thesis
      proof (cases ctl)
        case Break
        with True r v1 Inr x show ?thesis
          by (subst converge.simps) simp
      next
        case Next
        have "advances w (snd (converge e (iter + 1) q' fs' v1))"
          using True r Inr x Next v1 by (intro "1.IH") auto
        with True r Inr x Next show ?thesis
          by (subst converge.simps) simp
      qed
    qed
  qed
qed

lemma build_cases:
  obtains
    (in_planning) m v where
      "planning e p w = (Inl m, v)" "build c e p w = (Inl m, v)" "advances w v"
  | (in_coding) planned v1 m v where
      "planning e p w = (Inr planned, v1)"
      "coding e p 0 planned (addLog ''Phase 2: Autonomous Construction'' system v1) = (Inl m, v)"
      "build c e p w = (Inl m, v)" "advances w v"
  | (in_converge) planned v1 coded v2 m v where
      "planning e p w = (Inr planned, v1)"
      "coding e p 0 planned (addLog ''Phase 2: Autonomous Construction'' system v1)
         = (Inr coded, v2)"
      "converge e 1 0 coded (addLog ''Phase 3: Optimization Loop'' system v2) = (Inl m, v)"
      "build c e p w = (Inl m, v)" "advances w v"
  | (in_reporting) planned v1 coded v2 it q fs v where
      "planning e p w = (Inr planned, v1)"
      "coding e p 0 planned (addLog ''Phase 2: Autonomous Construction'' system v1)
         = (Inr coded, v2)"
      "converge e 1 0 coded (addLog ''Phase 3: Optimization Loop'' system v2)
         = (Inr (it, q, fs), v)"
      "build c e p w = reporting c e it q fs v" "advances w v"
proof -
  obtain r1 v1 where p1: "planning e p w = (r1, v1)"
    by (cases "planning e p w")
  have a1: "advances w v1"
    using planning_advances [OF advances_refl, of w e p] p1 by simp
  show ?thesis
  proof (cases r1)
    case (Inl m)
    with p1 a1 show ?thesis
      by (intro in_planning [of m v1]) (simp_all add: build_def)
  next
    case (Inr planned)
    obtain r2 v2 where p2:
      "coding e p 0 planned (addLog ''Phase 2: Autonomous Construction'' system v1) = (r2, v2)"
      by (cases "coding e p 0 planned (addLog ''Phase 2: Autonomous Construction'' system v1)")
    have "advances w (addLog ''Phase 2: Autonomous Construction'' system v1)"
      using a1 by (rule adv_addLog) simp
    from coding_advances [OF this, of e p 0 planned] p2 have a2: "advances w v2"
      by simp
    show ?thesis
    proof (cases r2)
      case (Inl m)
      with p1 Inr p2 a2 show ?thesis
        by (intro in_coding [of planned v1 m v2]) (simp_all add: build_def)
    next
      case coded: (Inr coded)
      obtain r3 v3 where p3:
        "converge e 1 0 coded (addLog ''Phase 3: Optimization Loop'' system v2) = (r3, v3)"
        by (cases "converge e 1 0 coded (addLog ''Phase 3: Optimization Loop'' system v2)")
      have "advances w (addLog ''Phase 3: Optimization Loop'' system v2)"
        using a2 by (rule adv_addLog) simp
      from converge_advances [OF this, of e 1 0 coded] p3 have a3: "advances w v3"
        by simp
      show ?thesis
      proof (cases r3)
        case (Inl m)
        with p1 Inr p2 coded p3 a3 show ?thesis
          by (intro in_converge [of planned v1 coded v2 m v3]) (simp_all add: build_def)
      next
        case x: (Inr x)
        obtain it q fs where "x = (it, q, fs)"
          by (cases x)
        with p1 Inr p2 coded p3 a3 x show ?thesis
          by (intro in_reporting [of planned v1 coded v2 it q fs v3]) (simp_all add: build_def)
      qed
    qed
  qed
qed

subsection \<open>Evaluating concrete runs\<close>

lemmas run_defs = handleStartMarathon_def start_build_def build_def build_failed_def planning_def
  coding.simps converge.simps converge_pass_def reporting_def needsRefinement_def
  errorContext_of_def filesToFix_of_def bug_count_def
  generateProjectPlan_def generateFileContent_def runAutonomousTests_def refactorCode_def
  generateFinalReport_def getAiClient_def number_results_def analysis_fallback_def
  strip_fences_def strip_open_def strip_close_def fence_def newline_def
  prims INITIAL_STATE_def MAX_ITERATIONS_def STOP_MESSAGE_def isBusy_def
  calm_def quiet_def interrupted_def answer_def fresh_def built_def file_app_def file_data_def
  plan_app_def plan_json_def
  failing_finding_def passing_finding_def show_nat_digits upt_rec

subsection \<open>The conversation\<close>

lemma advances_messages: "advances w v \<Longrightarrow> messages v = messages w"
  by (simp add: advances_def)

lemma handleManualTest_messages: "messages (handleManualTest c e w) = messages w"
  by (simp add: handleManualTest_def prims split: sum.splits)

lemma reporting_messages:
  "reporting c e it q fs v = (r, v') \<Longrightarrow>
   messages v' = messages v @
     (case r of
        Inl m \<Rightarrow> []
      | Inr u \<Rightarrow> [\<lparr>role = agent, msg_text =
          ''Mission complete. I've built the application. Check the Preview tab.''\<rparr>])"
  by (auto simp: reporting_def prims split: if_splits sum.splits)

lemma build_messages:
  assumes b: "build c e p w = (r, v)"
  shows "messages v = messages w @
     (case r of
        Inl m \<Rightarrow> []
      | Inr u \<Rightarrow> [\<lparr>role = agent, msg_text =
          ''Mission complete. I've built the application. Check the Preview tab.''\<rparr>])"
proof (cases rule: build_cases [of e p w c])
  case (in_planning m v0)
  with b show ?thesis
    by (auto simp: advances_messages)
next
  case (in_coding planned v1 m v0)
  with b show ?thesis
    by (auto simp: advances_messages)
next
  case (in_converge planned v1 coded v2 m v0)
  with b show ?thesis
    by (auto simp: advances_messages)
next
  case (in_reporting planned v1 coded v2 it q fs v0)
  with b have "reporting c e it q fs v0 = (r, v)"
    by simp
  from reporting_messages [OF this] in_reporting(5) show ?thesis
    by (simp add: advances_messages)
qed

lemma handleStartMarathon_messages:
  "\<exists>t \<in> {''Mission complete. I've built the application. Check the Preview tab.'',
          ''Process stopped.'', ''I encountered a critical error.''}.
     messages (handleStartMarathon c e p w) =
       messages w @
       [\<lparr>role = agent, msg_text = ''Target acquired. Initializing DAION build sequence...''\<rparr>,
        \<lparr>role = agent, msg_text = t\<rparr>]"
proof -
  obtain r v where b: "build c e p (start_build p w) = (r, v)"
    by (cases "build c e p (start_build p w)")
  have s: "messages (start_build p w) = messages w @
       [\<lparr>role = agent, msg_text = ''Target acquired. Initializing DAION build sequence...''\<rparr>]"
    by (simp add: start_build_def prims)
  show ?thesis
  proof (cases r)
    case (Inl m)
    with build_messages [OF b] b s show ?thesis
      by (simp add: handleStartMarathon_def build_failed_def prims)
  next
    case (Inr u)
    with build_messages [OF b] b s show ?thesis
      by (simp add: handleStartMarathon_def)
  qed
qed

text \<open>
  C7, as the code has it. An accepted user message (non-blank input, API key set) is
  appended to the conversation and then:
  \<^item> dispatched to a build (phase \<open>IDLE\<close> or \<open>STOPPED\<close>, or no files yet), it is followed by
    the acknowledgement ``Target acquired...'' and by exactly one agent message for the
    outcome: the success narrative, the cancellation notice or the error notice;
  \<^item> dispatched to a refinement (files present, phase \<open>COMPLETED\<close>, \<open>FAILED\<close>, \<open>TESTING\<close> or
    \<open>CODING\<close>), it is followed by exactly one agent message (success or error notice),
    and by none when the turn is cancelled;
  \<^item> arriving with files present in phase \<open>PLANNING\<close> or \<open>REFINING\<close>, it is followed by
    no agent message.
\<close>

theorem dispatch_agent_responses:
  assumes "trim (chatInput w) \<noteq> []" and "\<not> isl (getAiClient (API_KEY e))"
  shows
    "(status (state w) = IDLE \<or> status (state w) = STOPPED \<or> files (state w) = [] \<longrightarrow>
        (\<exists>t \<in> {''Mission complete. I've built the application. Check the Preview tab.'',
                ''Process stopped.'', ''I encountered a critical error.''}.
           messages (handleSendMessage e w) =
             messages w @
             [\<lparr>role = user, msg_text = chatInput w\<rparr>,
              \<lparr>role = agent, msg_text = ''Target acquired. Initializing DAION build sequence...''\<rparr>,
              \<lparr>role = agent, msg_text = t\<rparr>])) \<and>
     (files (state w) \<noteq> [] \<and> status (state w) \<in> {COMPLETED, FAILED, TESTING, CODING} \<longrightarrow>
        messages (handleSendMessage e w) =
          messages w @ [\<lparr>role = user, msg_text = chatInput w\<rparr>] @
          (case refineProject (API_KEY e) (files (state w)) (response (on_refine e)) of
             Inl m \<Rightarrow>
               if m = STOP_MESSAGE then []
               else [\<lparr>role = agent, msg_text = ''I couldn't apply those changes. Check the logs.''\<rparr>]
           | Inr (fs, expl) \<Rightarrow>
               if stop_pressed (on_refine e) then []
               else [\<lparr>role = agent,
                      msg_text = ''I've updated the code: '' @ expl @ ''. Running tests now...''\<rparr>])) \<and>
     (files (state w) \<noteq> [] \<and> status (state w) \<in> {PLANNING, REFINING} \<longrightarrow>
        messages (handleSendMessage e w) = messages w @ [\<lparr>role = user, msg_text = chatInput w\<rparr>])"
proof (intro conjI impI)
  assume "status (state w) = IDLE \<or> status (state w) = STOPPED \<or> files (state w) = []"
  then have "handleSendMessage e w =
      handleStartMarathon (state w) e (chatInput w)
        ((w\<lparr>messages := messages w @ [\<lparr>role = user, msg_text = chatInput w\<rparr>]\<rparr>)
           \<lparr>chatInput := [], abortController := False\<rparr>)"
    using assms by (auto simp: handleSendMessage_def Let_def)
  with handleStartMarathon_messages [of "state w" e "chatInput w"
      "(w\<lparr>messages := messages w @ [\<lparr>role = user, msg_text = chatInput w\<rparr>]\<rparr>)
           \<lparr>chatInput := [], abortController := False\<rparr>"]
  show "\<exists>t \<in> {''Mission complete. I've built the application. Check the Preview tab.'',
                ''Process stopped.'', ''I encountered a critical error.''}.
           messages (handleSendMessage e w) =
             messages w @
             [\<lparr>role = user, msg_text = chatInput w\<rparr>,
              \<lparr>role = agent, msg_text = ''Target acquired. Initializing DAION build sequence...''\<rparr>,
              \<lparr>role = agent, msg_text = t\<rparr>]"
    by simp
next
  assume a: "files (state w) \<noteq> [] \<and> status (state w) \<in> {COMPLETED, FAILED, TESTING, CODING}"
  have k: "getAiClient (API_KEY e) = Inr ()"
    using assms(2) by (cases "getAiClient (API_KEY e)") auto
  show "messages (handleSendMessage e w) =
          messages w @ [\<lparr>role = user, msg_text = chatInput w\<rparr>] @
          (case refineProject (API_KEY e) (files (state w)) (response (on_refine e)) of
             Inl m \<Rightarrow>
               if m = STOP_MESSAGE then []
               else [\<lparr>role = agent, msg_text = ''I couldn't apply those changes. Check the logs.''\<rparr>]
           | Inr (fs, expl) \<Rightarrow>
               if stop_pressed (on_refine e) then []
               else [\<lparr>role = agent,
                      msg_text = ''I've updated the code: '' @ expl @ ''. Running tests now...''\<rparr>])"
    using assms a k
    by (auto simp: handleSendMessage_def handleRefinement_def handleManualTest_messages prims
        isBusy_def split: sum.splits)
next
  assume "files (state w) \<noteq> [] \<and> status (state w) \<in> {PLANNING, REFINING}"
  then show "messages (handleSendMessage e w) =
      messages w @ [\<lparr>role = user, msg_text = chatInput w\<rparr>]"
    using assms by (auto simp: handleSendMessage_def Let_def)
qed

theorem dispatch_agent_responses_witness:
  "trim (chatInput asking) \<noteq> [] \<and> \<not> isl (getAiClient (API_KEY calm)) \<and>
   status (state asking) = COMPLETED \<and>
   messages (handleSendMessage calm asking) =
     [\<lparr>role = user, msg_text = ''make it blue''\<rparr>,
      \<lparr>role = agent, msg_text = ''I've updated the code: done. Running tests now...''\<rparr>]"
  using dispatch_agent_responses [of asking calm]
  by (simp add: asking_def trim_def is_space_def refineProject_def run_defs)

theorem two_agent_messages_per_build:
  "trim (chatInput fresh) \<noteq> [] \<and>
   messages (handleSendMessage calm fresh) =
     [\<lparr>role = user, msg_text = ''todo app''\<rparr>,
      \<lparr>role = agent, msg_text = ''Target acquired. Initializing DAION build sequence...''\<rparr>,
      \<lparr>role = agent,
        msg_text = ''Mission complete. I've built the application. Check the Preview tab.''\<rparr>]"
  by (simp add: handleSendMessage_def trim_def is_space_def run_defs)

subsection \<open>Cancellation\<close>






subsection \<open>Failing collaborator calls\<close>

lemma refactor_failure_thrown:
  "j < length ts \<Longrightarrow>
   (\<forall>i<j. (\<exists>t. refactorCode (API_KEY e) (ts ! i) (response (on_refactor e it (k + i))) = Inr t) \<and>
          \<not> stop_pressed (on_refactor e it (k + i))) \<Longrightarrow>
   refactorCode (API_KEY e) (ts ! j) (response (on_refactor e it (k + j))) = Inl m \<Longrightarrow>
   \<not> checkAbort v \<Longrightarrow>
   fst (refactorFiles e it ctx k ts cur v) = Inl m"
proof (induction ts arbitrary: j k cur v)
  case Nil
  then show ?case by simp
next
  case (Cons f ts)
  show ?case
  proof (cases j)
    case 0
    with Cons.prems show ?thesis
      by (simp add: Let_def)
  next
    case (Suc j')
    from Cons.prems(2) Suc obtain t where
      t: "refactorCode (API_KEY e) f (response (on_refactor e it k)) = Inr t" and
      ns: "\<not> stop_pressed (on_refactor e it k)"
      by force
    have later: "\<forall>i<j'. (\<exists>t. refactorCode (API_KEY e) (ts ! i)
          (response (on_refactor e it (Suc k + i))) = Inr t) \<and>
        \<not> stop_pressed (on_refactor e it (Suc k + i))"
      using Cons.prems(2) Suc by force
    have fail: "refactorCode (API_KEY e) (ts ! j') (response (on_refactor e it (Suc k + j'))) = Inl m"
      using Cons.prems(3) Suc by simp
    have lt: "j' < length ts"
      using Cons.prems(1) Suc by simp
    have ih: "fst (refactorFiles e it ctx (Suc k) ts cur' v') = Inl m" if "\<not> checkAbort v'"
      for cur' v'
      using Cons.IH [OF lt later fail that] .
    show ?thesis
      using Cons.prems(4) t ns
      by (auto simp: Let_def checkAbort_def invoke_def suspend_def ih split: option.splits)
  qed
qed

lemma fst_case_thrown:
  "fst X = Inl m \<Longrightarrow>
   fst (case X of (Inl m, w) \<Rightarrow> (Inl m, w) | (Inr fs, w) \<Rightarrow> h fs w) = Inl m"
  by (cases X) auto

text \<open>
  C4, as the code has it. Let \<open>m\<close> be the message of an error other than the cancellation.
  When such an error leaves the \<open>try\<close> block of a build, the phase becomes \<open>FAILED\<close>, the
  last log entry is the \<open>error\<close> entry ``FAILURE: m'' and the conversation ends with the
  generic error notice. A failing plan call, a failing refactor call of a refine pass
  (the calls before it in the pass having returned without STOP being pressed) and a
  failing report call throw their error, and the loop and the build pass it on to the
  \<open>try\<close> block. A failing refine call of a refinement turn is logged as \<open>error\<close>
  (``Refinement failed: m'') and answered with an error notice, and the phase returns to
  \<open>IDLE\<close>; \<open>FAILED\<close> is not entered.
\<close>

theorem failure_is_fatal_to_the_build:
  assumes "m \<noteq> STOP_MESSAGE"
  shows
    "(build c e p (start_build p w) = (Inl m, v) \<longrightarrow>
        status (state (handleStartMarathon c e p w)) = FAILED \<and>
        last (logs (state (handleStartMarathon c e p w))) =
          \<lparr>log_message = ''FAILURE: '' @ m, log_type = error\<rparr> \<and>
        last (messages (handleStartMarathon c e p w)) =
          \<lparr>role = agent, msg_text = ''I encountered a critical error.''\<rparr>) \<and>
     (\<not> checkAbort u \<and> generateProjectPlan (API_KEY e) (response (on_plan e)) = Inl m \<longrightarrow>
        fst (planning e p u) = Inl m \<and> fst (build c e p u) = Inl m) \<and>
     (\<not> checkAbort u \<and> \<not> stop_pressed (on_analyze e it) \<and>
      runAutonomousTests (API_KEY e) (response (on_analyze e it)) = Inr a \<and>
      needsRefinement a \<and> it < MAX_ITERATIONS \<and> j < length (filesToFix_of fs) \<and>
      (\<forall>i<j. (\<exists>t. refactorCode (API_KEY e) (filesToFix_of fs ! i)
                     (response (on_refactor e it i)) = Inr t) \<and>
             \<not> stop_pressed (on_refactor e it i)) \<and>
      refactorCode (API_KEY e) (filesToFix_of fs ! j) (response (on_refactor e it j)) = Inl m \<longrightarrow>
        fst (converge_pass e it fs u) = Inl m) \<and>
     (fst (converge_pass e it fs u) = Inl m \<and> it \<le> MAX_ITERATIONS \<and> q < 95 \<longrightarrow>
        fst (converge e it q fs u) = Inl m) \<and>
     (planning e p u = (Inr planned, v1) \<and>
      coding e p 0 planned (addLog ''Phase 2: Autonomous Construction'' system v1) = (Inr coded, v2) \<and>
      fst (converge e 1 0 coded (addLog ''Phase 3: Optimization Loop'' system v2)) = Inl m \<longrightarrow>
        fst (build c e p u) = Inl m) \<and>
     (\<not> checkAbort u \<and> generateFinalReport (API_KEY e) (response (on_report e)) = Inl m \<longrightarrow>
        fst (reporting c e it q fs u) = Inl m) \<and>
     (planning e p u = (Inr planned, v1) \<and>
      coding e p 0 planned (addLog ''Phase 2: Autonomous Construction'' system v1) = (Inr coded, v2) \<and>
      converge e 1 0 coded (addLog ''Phase 3: Optimization Loop'' system v2) = (Inr (it, q, fs), v3) \<and>
      fst (reporting c e it q fs v3) = Inl m \<longrightarrow>
        fst (build c e p u) = Inl m) \<and>
     (refineProject (API_KEY e) (files c) (response (on_refine e)) = Inl m \<longrightarrow>
        status (state (handleRefinement c e request w)) = IDLE \<and>
        last (logs (state (handleRefinement c e request w))) =
          \<lparr>log_message = ''Refinement failed: '' @ m, log_type = error\<rparr> \<and>
        last (messages (handleRefinement c e request w)) =
          \<lparr>role = agent, msg_text = ''I couldn't apply those changes. Check the logs.''\<rparr> \<and>
        (\<exists>js. journal (handleRefinement c e request w) = journal w @ js \<and> Entered FAILED \<notin> set js))"
proof (intro conjI impI)
  assume "build c e p (start_build p w) = (Inl m, v)"
  then have fin: "handleStartMarathon c e p w =
      addMessage agent ''I encountered a critical error.''
        (setStatus FAILED (addLog (''FAILURE: '' @ m) error v))"
    using assms by (simp add: handleStartMarathon_def build_failed_def)
  show "status (state (handleStartMarathon c e p w)) = FAILED"
    unfolding fin by (simp add: prims)
  show "last (logs (state (handleStartMarathon c e p w))) =
          \<lparr>log_message = ''FAILURE: '' @ m, log_type = error\<rparr>"
    unfolding fin by (simp add: prims)
  show "last (messages (handleStartMarathon c e p w)) =
          \<lparr>role = agent, msg_text = ''I encountered a critical error.''\<rparr>"
    unfolding fin by (simp add: prims)
next
  assume h: "\<not> checkAbort u \<and> generateProjectPlan (API_KEY e) (response (on_plan e)) = Inl m"
  then show "fst (planning e p u) = Inl m"
    by (simp add: planning_def Let_def)
  then show "fst (build c e p u) = Inl m"
    by (cases "planning e p u") (simp add: build_def)
next
  assume h: "\<not> checkAbort u \<and> \<not> stop_pressed (on_analyze e it) \<and>
      runAutonomousTests (API_KEY e) (response (on_analyze e it)) = Inr a \<and>
      needsRefinement a \<and> it < MAX_ITERATIONS \<and> j < length (filesToFix_of fs) \<and>
      (\<forall>i<j. (\<exists>t. refactorCode (API_KEY e) (filesToFix_of fs ! i)
                     (response (on_refactor e it i)) = Inr t) \<and>
             \<not> stop_pressed (on_refactor e it i)) \<and>
      refactorCode (API_KEY e) (filesToFix_of fs ! j) (response (on_refactor e it j)) = Inl m"
  have thrown: "fst (refactorFiles e it (errorContext_of a) 0 (filesToFix_of fs) fs x) = Inl m"
    if "\<not> checkAbort x" for x
    using h that by (intro refactor_failure_thrown [where j = j]) auto
  show "fst (converge_pass e it fs u) = Inl m"
    using h
    by (simp add: converge_pass_def Let_def checkAbort_def invoke_def suspend_def
        fst_case_thrown thrown [unfolded checkAbort_def])
next
  assume "fst (converge_pass e it fs u) = Inl m \<and> it \<le> MAX_ITERATIONS \<and> q < 95"
  then show "fst (converge e it q fs u) = Inl m"
    by (cases "converge_pass e it fs u") (subst converge.simps, simp)
next
  assume "planning e p u = (Inr planned, v1) \<and>
      coding e p 0 planned (addLog ''Phase 2: Autonomous Construction'' system v1) = (Inr coded, v2) \<and>
      fst (converge e 1 0 coded (addLog ''Phase 3: Optimization Loop'' system v2)) = Inl m"
  then show "fst (build c e p u) = Inl m"
    by (cases "converge e 1 0 coded (addLog ''Phase 3: Optimization Loop'' system v2)")
      (simp add: build_def)
next
  assume "\<not> checkAbort u \<and> generateFinalReport (API_KEY e) (response (on_report e)) = Inl m"
  then show "fst (reporting c e it q fs u) = Inl m"
    by (simp add: reporting_def Let_def)
next
  assume "planning e p u = (Inr planned, v1) \<and>
      coding e p 0 planned (addLog ''Phase 2: Autonomous Construction'' system v1) = (Inr coded, v2) \<and>
      converge e 1 0 coded (addLog ''Phase 3: Optimization Loop'' system v2) = (Inr (it, q, fs), v3) \<and>
      fst (reporting c e it q fs v3) = Inl m"
  then show "fst (build c e p u) = Inl m"
    by (simp add: build_def)
next
  assume h: "refineProject (API_KEY e) (files c) (response (on_refine e)) = Inl m"
  then have fin: "handleRefinement c e request w =
      setStatus IDLE
        (addMessage agent ''I couldn't apply those changes. Check the logs.''
          (addLog (''Refinement failed: '' @ m) error
            (invoke e (Refine request (files c)) (stop_pressed (on_refine e))
              (addLog ''Analyzing request and updating codebase...'' info
                (addLog (''User Request: '' @ request) system (setStatus REFINING w))))))"
    using assms by (simp add: handleRefinement_def Let_def)
  show "status (state (handleRefinement c e request w)) = IDLE"
    unfolding fin by (simp add: prims)
  show "last (logs (state (handleRefinement c e request w))) =
          \<lparr>log_message = ''Refinement failed: '' @ m, log_type = error\<rparr>"
    unfolding fin by (simp add: prims)
  show "last (messages (handleRefinement c e request w)) =
          \<lparr>role = agent, msg_text = ''I couldn't apply those changes. Check the logs.''\<rparr>"
    unfolding fin by (simp add: prims)
  show "\<exists>js. journal (handleRefinement c e request w) = journal w @ js \<and> Entered FAILED \<notin> set js"
    unfolding fin by (simp add: prims)
qed

theorem failure_is_fatal_to_the_build_witness:
  "''quota exceeded'' \<noteq> STOP_MESSAGE \<and>
   fst (build (state fresh) refactor_rejected ''todo app'' (start_build ''todo app'' fresh)) =
     Inl ''quota exceeded'' \<and>
   status (state (handleStartMarathon (state fresh) refactor_rejected ''todo app'' fresh)) = FAILED \<and>
   last (logs (state (handleStartMarathon (state fresh) refactor_rejected ''todo app'' fresh))) =
     \<lparr>log_message = ''FAILURE: quota exceeded'', log_type = error\<rparr> \<and>
   status (state (handleRefinement (state asking) refine_rejected ''make it blue'' asking)) = IDLE \<and>
   last (logs (state (handleRefinement (state asking) refine_rejected ''make it blue'' asking))) =
     \<lparr>log_message = ''Refinement failed: quota exceeded'', log_type = error\<rparr>"
proof -
  have m: "''quota exceeded'' \<noteq> STOP_MESSAGE"
    by (simp add: STOP_MESSAGE_def)
  have bf: "fst (build (state fresh) refactor_rejected ''todo app'' (start_build ''todo app'' fresh))
      = Inl ''quota exceeded''"
    by (simp add: refactor_rejected_def run_defs)
  then have b: "build (state fresh) refactor_rejected ''todo app'' (start_build ''todo app'' fresh) =
     (Inl ''quota exceeded'',
      snd (build (state fresh) refactor_rejected ''todo app'' (start_build ''todo app'' fresh)))"
    by (metis prod.collapse)
  have r: "refineProject (API_KEY refine_rejected) (files (state asking))
      (response (on_refine refine_rejected)) = Inl ''quota exceeded''"
    by (simp add: refine_rejected_def refineProject_def run_defs)
  note build_part = failure_is_fatal_to_the_build [OF m, where c = "state fresh"
      and e = refactor_rejected and p = "''todo app''" and w = fresh
      and v = "snd (build (state fresh) refactor_rejected ''todo app'' (start_build ''todo app'' fresh))",
      THEN conjunct1, THEN mp, OF b]
  note refine_part = failure_is_fatal_to_the_build [OF m, where c = "state asking"
      and e = refine_rejected and request = "''make it blue''" and w = asking,
      THEN conjunct2, THEN conjunct2, THEN conjunct2, THEN conjunct2, THEN conjunct2,
      THEN conjunct2, THEN conjunct2, THEN mp, OF r]
  show ?thesis
    using build_part refine_part m bf by simp
qed

theorem refinement_failure_returns_to_idle:
  "refineProject (API_KEY refine_rejected) (files (state asking)) (response (on_refine refine_rejected))
     = Inl ''quota exceeded'' \<and>
   status (state (handleSendMessage refine_rejected asking)) = IDLE \<and>
   Entered FAILED \<notin> set (journal (handleSendMessage refine_rejected asking))"
  by (simp add: refine_rejected_def asking_def handleSendMessage_def handleRefinement_def
      trim_def is_space_def refineProject_def run_defs)

subsection \<open>The iteration budget\<close>


















lemma converge_pass_unfold:
  "converge_pass e it fs w =
     (if checkAbort w then (Inl STOP_MESSAGE, w)
      else
        case runAutonomousTests (API_KEY e) (response (on_analyze e it)) of
          Inl m \<Rightarrow> (Inl m, begin_pass e it fs w)
        | Inr a \<Rightarrow>
            if checkAbort (begin_pass e it fs w) then (Inl STOP_MESSAGE, begin_pass e it fs w)
            else if needsRefinement a \<and> it < MAX_ITERATIONS then
              (case refactorFiles e it (errorContext_of a) 0 (filesToFix_of fs) fs
                      (setStatus REFINING (record_analysis it a (begin_pass e it fs w))) of
                 (Inl m, w7) \<Rightarrow> (Inl m, w7)
               | (Inr fs', w7) \<Rightarrow> (Inr (Next, score a, fs'), w7))
            else if score a \<ge> 95 \<and> \<not> degraded (vibeCheck a) then
              (Inr (Break, score a, fs),
               addLog ''System stable.'' success (record_analysis it a (begin_pass e it fs w)))
            else if it \<ge> MAX_ITERATIONS then
              (Inr (Break, score a, fs),
               addLog ''Max iterations reached.'' warning
                 (record_analysis it a (begin_pass e it fs w)))
            else (Inr (Next, score a, fs), record_analysis it a (begin_pass e it fs w)))"
  by (simp add: converge_pass_def begin_pass_def record_analysis_def Let_def checkAbort_def
      split: sum.splits)


lemma record_analysis_facts:
  "analyses (journal (record_analysis it a w)) = analyses (journal w)"
  "iteration (state (record_analysis it a w)) = iteration (state w)"
  "exhausted (record_analysis it a w) = exhausted w"
  "abortController (record_analysis it a w) = abortController w"
  "status (state (record_analysis it a w)) = status (state w)"
  by (simp_all add: record_analysis_def prims exhausted_def)
















subsection \<open>Decisions of the optimisation loop\<close>

lemma advances_journal: "advances w v \<Longrightarrow> \<exists>js. journal v = journal w @ js"
  unfolding advances_def by blast

lemma converge_pass_first_analysis:
  assumes "\<not> checkAbort v"
  shows "\<exists>js. journal (snd (converge_pass e it fs v)) =
    journal v @ Entered TESTING # Called (Analyze fs) # js"
proof -
  have b: "\<exists>js. journal (begin_pass e it fs v) = journal v @ Entered TESTING # Called (Analyze fs) # js"
    by (simp add: begin_pass_def prims)
  then obtain js where js: "journal (begin_pass e it fs v) =
      journal v @ Entered TESTING # Called (Analyze fs) # js"
    by blast
  have ext: "\<exists>ks. journal x = journal v @ Entered TESTING # Called (Analyze fs) # ks"
    if "advances (begin_pass e it fs v) x" for x
    using advances_journal [OF that] js by auto
  have r: "advances (begin_pass e it fs v) (record_analysis it a (begin_pass e it fs v))" for a
    by (auto simp: record_analysis_def Let_def intro!: adv)
  have l: "advances (begin_pass e it fs v) (addLog m t (record_analysis it a (begin_pass e it fs v)))"
    if "t \<noteq> error" for m t a
    using r that by (rule adv_addLog)
  have f: "advances (begin_pass e it fs v) x"
    if "refactorFiles e it ctx 0 ts fs
      (setStatus REFINING (record_analysis it a (begin_pass e it fs v))) = (res, x)"
      and "\<not> checkAbort (begin_pass e it fs v)" for a ctx ts res x
    using that(1)
    by (rule refactorFiles_adv) (use that(2) r in \<open>auto simp: record_analysis_facts checkAbort_def
        intro!: adv_setStatus\<close>)
  show ?thesis
    using assms
    unfolding converge_pass_unfold
    by (auto split: sum.splits prod.splits intro!: ext advances_refl r l f)
qed

lemma converge_first_analysis:
  assumes "it \<le> MAX_ITERATIONS" "q < 95" "\<not> checkAbort v"
  shows "\<exists>js. journal (snd (converge e it q fs v)) =
    journal v @ Entered TESTING # Called (Analyze fs) # js"
proof -
  obtain r v1 where p: "converge_pass e it fs v = (r, v1)"
    by (cases "converge_pass e it fs v")
  from converge_pass_first_analysis [OF assms(3), of e it fs] p obtain js where
    js: "journal v1 = journal v @ Entered TESTING # Called (Analyze fs) # js"
    by auto
  show ?thesis
  proof (cases r)
    case (Inl m)
    with assms p js show ?thesis
      by (subst converge.simps) simp
  next
    case (Inr x)
    obtain ctl q' fs' where x: "x = (ctl, q', fs')"
      by (cases x)
    show ?thesis
    proof (cases ctl)
      case Break
      with assms p js Inr x show ?thesis
        by (subst converge.simps) simp
    next
      case Next
      from advances_journal [OF converge_advances [OF advances_refl, of v1 e "it + 1" q' fs']]
      obtain ks where "journal (snd (converge e (it + 1) q' fs' v1)) = journal v1 @ ks"
        by blast
      with assms p js Inr x Next show ?thesis
        by (subst converge.simps) simp
    qed
  qed
qed

text \<open>
  C1, as the code has it. Consider a pass of the optimisation loop whose analysis returns
  (without STOP being pressed).
  \<^item> The loop stops with success (``System stable.'') exactly when the analysis returned
    \<open>qualityScore \<ge> 95\<close> and \<open>vibe.degraded = false\<close> and, besides, no finding failed or the
    iteration is the last one of the budget. Then the loop is left at once, no refactor
    call is made, and the very next transition is to \<open>COMPLETED\<close>.
  \<^item> When the analysis returned \<open>qualityScore < 95\<close> and budget remains, the loop cannot be
    left normally before it has analysed again: after a refine pass if a finding failed
    or the vibe is degraded, and directly, without a refine pass, otherwise.
\<close>

theorem converge_decisions:
  assumes na: "\<not> checkAbort w" and ns: "\<not> stop_pressed (on_analyze e it)"
    and an: "runAutonomousTests (API_KEY e) (response (on_analyze e it)) = Inr a"
    and le: "it \<le> MAX_ITERATIONS" and q0: "q0 < 95"
  shows
    "((\<exists>fs' w'. converge_pass e it fs w = (Inr (Break, score a, fs'), w') \<and>
         last (logs (state w')) = \<lparr>log_message = ''System stable.'', log_type = success\<rparr>) \<longleftrightarrow>
      score a \<ge> 95 \<and> \<not> degraded (vibeCheck a) \<and> (bug_count a = 0 \<or> it = MAX_ITERATIONS)) \<and>
     (score a \<ge> 95 \<and> \<not> degraded (vibeCheck a) \<and> (bug_count a = 0 \<or> it = MAX_ITERATIONS) \<longrightarrow>
        (\<exists>w'. converge e it q0 fs w = (Inr (it, score a, fs), w') \<and>
           journal w' = journal w @ [Entered TESTING, Called (Analyze fs)] \<and>
           journal (snd (reporting c e it (score a) fs w')) =
             journal w' @ [Entered COMPLETED,
               Called (Report (c\<lparr>iteration := it, qualityScore := score a, files := fs\<rparr>))])) \<and>
     (score a < 95 \<and> it < MAX_ITERATIONS \<and> needsRefinement a \<longrightarrow>
        (\<forall>x w'. converge e it q0 fs w = (Inr x, w') \<longrightarrow>
           (\<exists>js fs' js'. journal w' =
              journal w @ [Entered TESTING, Called (Analyze fs), Entered REFINING] @ js @
              Called (Analyze fs') # js'))) \<and>
     (score a < 95 \<and> it < MAX_ITERATIONS \<and> \<not> needsRefinement a \<longrightarrow>
        (\<exists>js. journal (snd (converge e it q0 fs w)) =
           journal w @ [Entered TESTING, Called (Analyze fs), Entered TESTING, Called (Analyze fs)]
           @ js))"
proof (intro conjI impI)
  have key: "getAiClient (API_KEY e) = Inr ()"
    using an by (cases "getAiClient (API_KEY e)") (auto simp: runAutonomousTests_def)
  let ?b = "begin_pass e it fs w"
  let ?r = "record_analysis it a ?b"
  have b: "\<not> abortController ?b" "journal ?b = journal w @ [Entered TESTING, Called (Analyze fs)]"
    using na ns key by (simp_all add: begin_pass_def prims)
  have r: "\<not> abortController ?r" "journal ?r = journal w @ [Entered TESTING, Called (Analyze fs)]"
    using b by (simp_all add: record_analysis_def prims)
  show "(\<exists>fs' w'. converge_pass e it fs w = (Inr (Break, score a, fs'), w') \<and>
         last (logs (state w')) = \<lparr>log_message = ''System stable.'', log_type = success\<rparr>) \<longleftrightarrow>
      score a \<ge> 95 \<and> \<not> degraded (vibeCheck a) \<and> (bug_count a = 0 \<or> it = MAX_ITERATIONS)"
    using na an b le
    by (auto simp: converge_pass_unfold checkAbort_def needsRefinement_def prims
        split: prod.splits sum.splits)
  {
    assume s: "score a \<ge> 95 \<and> \<not> degraded (vibeCheck a) \<and> (bug_count a = 0 \<or> it = MAX_ITERATIONS)"
    have p: "converge_pass e it fs w =
        (Inr (Break, score a, fs), addLog ''System stable.'' success ?r)"
      using na an b s by (auto simp: converge_pass_unfold checkAbort_def needsRefinement_def)
    have cv: "converge e it q0 fs w = (Inr (it, score a, fs), addLog ''System stable.'' success ?r)"
      using le q0 p by (subst converge.simps) simp
    show "\<exists>w'. converge e it q0 fs w = (Inr (it, score a, fs), w') \<and>
           journal w' = journal w @ [Entered TESTING, Called (Analyze fs)] \<and>
           journal (snd (reporting c e it (score a) fs w')) =
             journal w' @ [Entered COMPLETED,
               Called (Report (c\<lparr>iteration := it, qualityScore := score a, files := fs\<rparr>))]"
      using cv r
      by (auto simp: reporting_def prims isBusy_def split: sum.splits)
  }
  {
    assume s: "score a < 95 \<and> it < MAX_ITERATIONS \<and> needsRefinement a"
    let ?W = "setStatus REFINING ?r"
    have W: "journal ?W = journal w @ [Entered TESTING, Called (Analyze fs), Entered REFINING]"
      using r by (simp add: prims)
    obtain res w7 where rf: "refactorFiles e it (errorContext_of a) 0 (filesToFix_of fs) fs ?W
        = (res, w7)"
      by (cases "refactorFiles e it (errorContext_of a) 0 (filesToFix_of fs) fs ?W")
    from advances_journal [OF refactorFiles_adv [OF rf advances_refl]] obtain js where
      js: "journal w7 = journal ?W @ js"
      by blast
    show "\<forall>x w'. converge e it q0 fs w = (Inr x, w') \<longrightarrow>
           (\<exists>js fs' js'. journal w' =
              journal w @ [Entered TESTING, Called (Analyze fs), Entered REFINING] @ js @
              Called (Analyze fs') # js')"
    proof (cases res)
      case (Inl m)
      with rf na an b s have "converge_pass e it fs w = (Inl m, w7)"
        by (simp add: converge_pass_unfold checkAbort_def)
      with le q0 have "converge e it q0 fs w = (Inl m, w7)"
        by (subst converge.simps) simp
      then show ?thesis
        by simp
    next
      case (Inr fs')
      with rf na an b s have "converge_pass e it fs w = (Inr (Next, score a, fs'), w7)"
        by (simp add: converge_pass_unfold checkAbort_def)
      with le q0 have cv: "converge e it q0 fs w = converge e (it + 1) (score a) fs' w7"
        by (subst converge.simps) simp
      show ?thesis
      proof (cases "checkAbort w7")
        case True
        with s have "converge e (it + 1) (score a) fs' w7 = (Inl STOP_MESSAGE, w7)"
          by (subst converge.simps) (simp add: converge_pass_unfold)
        with cv show ?thesis
          by simp
      next
        case False
        from converge_first_analysis [OF _ _ False, of "it + 1" "score a" e fs'] s
        obtain ks where "journal (snd (converge e (it + 1) (score a) fs' w7)) =
            journal w7 @ Entered TESTING # Called (Analyze fs') # ks"
          by auto
        with cv js W have "journal (snd (converge e it q0 fs w)) =
            journal w @ [Entered TESTING, Called (Analyze fs), Entered REFINING] @
              (js @ [Entered TESTING]) @ Called (Analyze fs') # ks"
          by simp
        then show ?thesis
          by (metis snd_conv)
      qed
    qed
  }
  {
    assume s: "score a < 95 \<and> it < MAX_ITERATIONS \<and> \<not> needsRefinement a"
    have "converge_pass e it fs w = (Inr (Next, score a, fs), ?r)"
      using na an b s by (simp add: converge_pass_unfold checkAbort_def)
    with le q0 have cv: "converge e it q0 fs w = converge e (it + 1) (score a) fs ?r"
      by (subst converge.simps) simp
    from converge_first_analysis [of "it + 1" "score a" ?r e fs] s r(1)
    obtain ks where "journal (snd (converge e (it + 1) (score a) fs ?r)) =
        journal ?r @ Entered TESTING # Called (Analyze fs) # ks"
      by (auto simp: checkAbort_def)
    with cv r(2) show "\<exists>js. journal (snd (converge e it q0 fs w)) =
           journal w @ [Entered TESTING, Called (Analyze fs), Entered TESTING, Called (Analyze fs)]
           @ js"
      by simp
  }
qed

theorem converge_decisions_witness:
  "\<not> checkAbort fresh \<and>
   converge todo_scenario 2 0 [file_app] fresh =
     (Inr (2, 97, [file_app]), snd (converge todo_scenario 2 0 [file_app] fresh)) \<and>
   journal (snd (converge todo_scenario 2 0 [file_app] fresh)) =
     [Entered TESTING, Called (Analyze [file_app])] \<and>
   fst (converge todo_scenario 1 0 [file_app] fresh) =
     Inr (2, 97, [file_app\<lparr>content := ''fixed''\<rparr>]) \<and>
   journal (snd (converge todo_scenario 1 0 [file_app] fresh)) =
     [Entered TESTING, Called (Analyze [file_app]), Entered REFINING,
      Called (Refactor file_app ''crash''),
      Entered TESTING, Called (Analyze [file_app\<lparr>content := ''fixed''\<rparr>])]"
proof -
  have na: "\<not> checkAbort fresh"
    by (simp add: checkAbort_def fresh_def)
  have ns: "\<not> stop_pressed (on_analyze todo_scenario it)" for it
    by (simp add: todo_scenario_def calm_def quiet_def)
  have a2: "runAutonomousTests (API_KEY todo_scenario) (response (on_analyze todo_scenario 2)) =
      Inr \<lparr>results = [], score = 97,
           vibeCheck = \<lparr>degraded = False, reason = ''Code duplication detected''\<rparr>\<rparr>"
    by (simp add: todo_scenario_def run_defs)
  note second = converge_decisions [OF na ns a2, of 0 "[file_app]" "state fresh"]
  have c2: "converge todo_scenario 2 0 [file_app] fresh =
     (Inr (2, 97, [file_app]), snd (converge todo_scenario 2 0 [file_app] fresh))"
    using second by (auto simp: MAX_ITERATIONS_def bug_count_def)
  have j2: "journal (snd (converge todo_scenario 2 0 [file_app] fresh)) =
     [Entered TESTING, Called (Analyze [file_app])]"
    using second by (auto simp: MAX_ITERATIONS_def bug_count_def fresh_def)
  have j1: "journal (snd (converge todo_scenario 1 0 [file_app] fresh)) =
     [Entered TESTING, Called (Analyze [file_app]), Entered REFINING,
      Called (Refactor file_app ''crash''),
      Entered TESTING, Called (Analyze [file_app\<lparr>content := ''fixed''\<rparr>])]"
    by (simp add: todo_scenario_def run_defs)
  have r1: "fst (converge todo_scenario 1 0 [file_app] fresh) =
     Inr (2, 97, [file_app\<lparr>content := ''fixed''\<rparr>])"
    by (simp add: todo_scenario_def run_defs)
  from na c2 j2 r1 j1 show ?thesis
    by blast
qed

theorem refine_despite_high_score:
  "runAutonomousTests (API_KEY polished_with_bug) (response (on_analyze polished_with_bug 1)) =
     Inr \<lparr>results = [\<lparr>test_id = ''test-0'', testName = ''renders'', passed = False,
                       message = ''crash''\<rparr>],
          score = 97, vibeCheck = \<lparr>degraded = False, reason = ''Code duplication detected''\<rparr>\<rparr> \<and>
   drop 5 (journal (handleStartMarathon (state fresh) polished_with_bug ''todo app'' fresh)) =
     [Entered TESTING,
      Called (Analyze [plan_app\<lparr>content := ''code'', file_status := created\<rparr>,
                       plan_json\<lparr>content := ''code'', file_status := created\<rparr>]),
      Entered REFINING,
      Called (Refactor (plan_app\<lparr>content := ''code'', file_status := created\<rparr>) ''crash''),
      Entered COMPLETED,
      Called (Report ((state fresh)\<lparr>iteration := 2, qualityScore := 97,
        files := [plan_app\<lparr>content := ''fixed'', file_status := verified\<rparr>,
                  plan_json\<lparr>content := ''code'', file_status := created\<rparr>]\<rparr>))]"
  by (simp add: polished_with_bug_def run_defs)

subsection \<open>Absorbed failures\<close>





subsection \<open>Targets of a refine pass\<close>







end
